theory Spec2Isabelle
  imports Complex_Main "HOL-Library.AList"
begin

section \<open>Python values\<close>

text \<open>
  The gateway (\<^verbatim>\<open>saltapi/netapi/rest_cherrypy/app.py\<close>, Python 2) handles decoded
  JSON, YAML and form data: \<^verbatim>\<open>None\<close>, booleans, numbers, strings, lists and
  dictionaries with string keys. A dictionary is an association list with distinct
  keys; assigning to a key replaces the value in place or appends a new entry.
  A Python float is read as a real number: rounding of doubles is not modelled.
\<close>

datatype pyval =
    PNone
  | PBool bool
  | PInt int
  | PFloat real
  | PStr string
  | PList "pyval list"
  | PDict "(string \<times> pyval) list"

text \<open>
  Exceptions that derive from \<^verbatim>\<open>Exception\<close>. \<^verbatim>\<open>HTTPError\<close> and
  \<^verbatim>\<open>InternalRedirect\<close> are the subclasses of \<^verbatim>\<open>cherrypy.CherryPyException\<close> the
  gateway raises; \<open>PyError cls msg\<close> is any other exception, \<open>cls\<close> being the name of
  its built-in class (an exception of a library's own class is named by the built-in
  class that class derives from).
\<close>

datatype exn =
    HTTPError nat string
  | InternalRedirect string
  | EauthAuthenticationError string
  | PyError string string

definition ebind :: "exn + 'a \<Rightarrow> ('a \<Rightarrow> exn + 'b) \<Rightarrow> exn + 'b" where
  "ebind m f = (case m of Inl e \<Rightarrow> Inl e | Inr x \<Rightarrow> f x)"

text \<open>Truth value testing, as \<^verbatim>\<open>if token:\<close> does it.\<close>

fun py_truthy :: "pyval \<Rightarrow> bool" where
  "py_truthy PNone = False"
| "py_truthy (PBool b) = b"
| "py_truthy (PInt i) = (i \<noteq> 0)"
| "py_truthy (PFloat r) = (r \<noteq> 0)"
| "py_truthy (PStr s) = (s \<noteq> [])"
| "py_truthy (PList xs) = (xs \<noteq> [])"
| "py_truthy (PDict d) = (d \<noteq> [])"

text \<open>\<^verbatim>\<open>isinstance(v, list)\<close> and \<^verbatim>\<open>type(v) != list\<close>.\<close>

fun is_list :: "pyval \<Rightarrow> bool" where
  "is_list (PList xs) = True"
| "is_list v = False"

text \<open>Substring test, for \<^verbatim>\<open>'arg' in chunk\<close> when the chunk is a string.\<close>

fun is_substr :: "string \<Rightarrow> string \<Rightarrow> bool" where
  "is_substr k [] = (k = [])"
| "is_substr k (c # cs) = (take (length k) (c # cs) = k \<or> is_substr k cs)"

text \<open>\<^verbatim>\<open>k in v\<close>, \<^verbatim>\<open>v[k]\<close> and \<^verbatim>\<open>v[k] = x\<close> for a string key \<open>k\<close>.\<close>

fun py_contains :: "string \<Rightarrow> pyval \<Rightarrow> exn + bool" where
  "py_contains k (PDict d) = Inr (k \<in> fst ` set d)"
| "py_contains k (PList xs) = Inr (PStr k \<in> set xs)"
| "py_contains k (PStr s) = Inr (is_substr k s)"
| "py_contains k v = Inl (PyError ''TypeError'' ''argument is not iterable'')"

fun py_getitem :: "pyval \<Rightarrow> string \<Rightarrow> exn + pyval" where
  "py_getitem (PDict d) k =
     (case map_of d k of None \<Rightarrow> Inl (PyError ''KeyError'' k) | Some v \<Rightarrow> Inr v)"
| "py_getitem v k = Inl (PyError ''TypeError'' ''indices must be integers'')"

fun py_setitem :: "pyval \<Rightarrow> string \<Rightarrow> pyval \<Rightarrow> exn + pyval" where
  "py_setitem (PDict d) k x = Inr (PDict (AList.update k x d))"
| "py_setitem v k x = Inl (PyError ''TypeError'' ''object does not support item assignment'')"

section \<open>The Lowstate Executor\<close>

text \<open>
  \<^verbatim>\<open>self.api.run(chunk)\<close> is the execution engine, outside this file. It is a
  parameter \<open>run\<close>: from the engine's state and a chunk to what the call gives and the
  engine's next state. A call returns a single value, returns an iterator (the elements
  it produces, and the exception that ends it if one does), or raises.
\<close>

datatype engine_ret =
    Single pyval
  | Iterator "pyval list" "exn option"
  | Raised exn

type_synonym 'e engine = "'e \<Rightarrow> pyval \<Rightarrow> engine_ret \<times> 'e"

text \<open>What a request does that others can observe, in the order it does it.\<close>

datatype event =
    LockReleased
  | EngineRun pyval
  | Yield pyval
  | TokenChecked pyval
  | Subscribed
  | Sent string
  | Logged string
  | Slept

text \<open>The three updates of one chunk in the loop of \<^verbatim>\<open>exec_lowstate\<close>.\<close>

definition inject :: "string \<Rightarrow> pyval \<Rightarrow> pyval \<Rightarrow> exn + pyval" where
  "inject k v chunk = (if py_truthy v then py_setitem chunk k v else Inr chunk)"

definition normalize_arg :: "pyval \<Rightarrow> exn + pyval" where
  "normalize_arg chunk =
     ebind (py_contains ''arg'' chunk) (\<lambda>has.
       if \<not> has then Inr chunk
       else ebind (py_getitem chunk ''arg'') (\<lambda>a.
         if is_list a then Inr chunk else py_setitem chunk ''arg'' (PList [a])))"

definition prep_chunk :: "pyval \<Rightarrow> pyval \<Rightarrow> pyval \<Rightarrow> exn + pyval" where
  "prep_chunk client token chunk =
     ebind (inject ''token'' token chunk) (\<lambda>c1.
       ebind (inject ''client'' client c1) normalize_arg)"

text \<open>
  The loop over the chunks. The result is the events in order, the exception that ended
  the generator (if any) and the engine's state.
\<close>

fun exec_chunks ::
  "'e engine \<Rightarrow> pyval \<Rightarrow> pyval \<Rightarrow> pyval list \<Rightarrow> 'e \<Rightarrow> event list \<times> exn option \<times> 'e" where
  "exec_chunks run client token [] s = ([], None, s)"
| "exec_chunks run client token (chunk # rest) s =
     (case prep_chunk client token chunk of
        Inl e \<Rightarrow> ([], Some e, s)
      | Inr c \<Rightarrow>
          (case run s c of
             (Raised e, s1) \<Rightarrow> ([EngineRun c], Some e, s1)
           | (Iterator vs (Some e), s1) \<Rightarrow> (EngineRun c # map Yield vs, Some e, s1)
           | (Iterator vs None, s1) \<Rightarrow>
               (case exec_chunks run client token rest s1 of
                  (evs, r, s2) \<Rightarrow> (EngineRun c # map Yield vs @ evs, r, s2))
           | (Single v, s1) \<Rightarrow>
               (case exec_chunks run client token rest s1 of
                  (evs, r, s2) \<Rightarrow> (EngineRun c # Yield v # evs, r, s2))))"

text \<open>
  \<^verbatim>\<open>exec_lowstate(client, token)\<close>, run to its end. \<^verbatim>\<open>cherrypy.request.lowstate\<close>
  is \<open>None\<close> when the attribute was never assigned. \<open>session\<close> says whether the
  resource has \<^verbatim>\<open>tools.sessions.on\<close>: without the sessions tool there is no session
  object behind \<^verbatim>\<open>cherrypy.session\<close>, and \<^verbatim>\<open>cherrypy.session.release_lock()\<close>
  raises \<^verbatim>\<open>AttributeError\<close>, before the list check and before any engine call.
\<close>

definition exec_lowstate ::
  "'e engine \<Rightarrow> bool \<Rightarrow> pyval \<Rightarrow> pyval \<Rightarrow> pyval option \<Rightarrow> 'e
     \<Rightarrow> event list \<times> exn option \<times> 'e" where
  "exec_lowstate run session client token lowstate s =
     (case lowstate of
        None \<Rightarrow> ([], Some (PyError ''AttributeError'' ''lowstate''), s)
      | Some v \<Rightarrow>
          if \<not> session then ([], Some (PyError ''AttributeError'' ''session''), s)
          else (case v of
                  PList chunks \<Rightarrow>
                    (case exec_chunks run client token chunks s of
                       (evs, r, s1) \<Rightarrow> (LockReleased # evs, r, s1))
                | _ \<Rightarrow> ([LockReleased], Some (HTTPError 400 ''Lowstates must be a list''), s)))"

text \<open>The values a generator yielded, and the chunks the engine was called with.\<close>

fun yields :: "event list \<Rightarrow> pyval list" where
  "yields [] = []"
| "yields (Yield v # evs) = v # yields evs"
| "yields (ev # evs) = yields evs"

fun engine_calls :: "event list \<Rightarrow> pyval list" where
  "engine_calls [] = []"
| "engine_calls (EngineRun c # evs) = c # engine_calls evs"
| "engine_calls (ev # evs) = engine_calls evs"



section \<open>Decoding the request body\<close>

text \<open>
  The part of \<^verbatim>\<open>cherrypy.request\<close> the tools read and write. The two attributes
  \<^verbatim>\<open>unserialized_data\<close> and \<^verbatim>\<open>lowstate\<close> do not exist on a fresh request:
  \<open>None\<close> is the missing attribute.
\<close>

record request =
  req_method :: string
  headers :: "(string \<times> string) list"
  body :: string
  process_request_body :: bool
  unserialized_data :: "pyval option"
  lowstate :: "pyval option"

text \<open>
  \<^verbatim>\<open>json.loads\<close>, \<^verbatim>\<open>yaml.safe_load\<close> and CherryPy's \<^verbatim>\<open>process_urlencoded\<close>
  (which leaves the form fields in \<^verbatim>\<open>entity.params\<close>) are libraries: parameters.
\<close>

record decoders =
  json_loads :: "string \<Rightarrow> exn + pyval"
  yaml_safe_load :: "string \<Rightarrow> exn + pyval"
  process_urlencoded :: "string \<Rightarrow> exn + pyval"

definition upper :: "string \<Rightarrow> string" where
  "upper s = map (\<lambda>c. case map_of (zip ''abcdefghijklmnopqrstuvwxyz''
                                       ''ABCDEFGHIJKLMNOPQRSTUVWXYZ'') c of
                         None \<Rightarrow> c | Some u \<Rightarrow> u) s"

text \<open>
  \<^verbatim>\<open>except ValueError\<close> catches \<^verbatim>\<open>ValueError\<close> and the built-in classes below it:
  \<^verbatim>\<open>UnicodeError\<close> and its three subclasses.
\<close>

fun is_ValueError :: "exn \<Rightarrow> bool" where
  "is_ValueError (PyError cls msg) =
     (cls \<in> set [''ValueError'', ''UnicodeError'', ''UnicodeDecodeError'',
                  ''UnicodeEncodeError'', ''UnicodeTranslateError''])"
| "is_ValueError e = False"

definition hypermedia_in :: "request \<Rightarrow> request" where
  "hypermedia_in req =
     (if upper (req_method req) = ''POST''
         \<and> (case map_of (headers req) ''Content-Length'' of None \<Rightarrow> ''0'' | Some v \<Rightarrow> v) = ''0''
      then req\<lparr>process_request_body := False\<rparr>
      else req)"

definition urlencoded_processor :: "decoders \<Rightarrow> request \<Rightarrow> exn + request" where
  "urlencoded_processor decs req =
     ebind (process_urlencoded decs (body req)) (\<lambda>params.
       Inr (req\<lparr>unserialized_data := Some params\<rparr>))"

definition json_processor :: "decoders \<Rightarrow> request \<Rightarrow> exn + request" where
  "json_processor decs req =
     (case json_loads decs (body req) of
        Inr v \<Rightarrow> Inr (req\<lparr>unserialized_data := Some v\<rparr>)
      | Inl e \<Rightarrow> if is_ValueError e then Inl (HTTPError 400 ''Invalid JSON document'')
                 else Inl e)"

definition yaml_processor :: "decoders \<Rightarrow> request \<Rightarrow> exn + request" where
  "yaml_processor decs req =
     (case yaml_safe_load decs (body req) of
        Inr v \<Rightarrow> Inr (req\<lparr>unserialized_data := Some v\<rparr>)
      | Inl e \<Rightarrow> if is_ValueError e then Inl (HTTPError 400 ''Invalid YAML document'')
                 else Inl e)"

definition text_processor :: "decoders \<Rightarrow> request \<Rightarrow> exn + request" where
  "text_processor decs req =
     (case json_loads decs (body req) of
        Inr v \<Rightarrow> Inr (req\<lparr>unserialized_data := Some v\<rparr>)
      | Inl e \<Rightarrow> if is_ValueError e then Inr (req\<lparr>unserialized_data := Some (PStr (body req))\<rparr>)
                 else Inl e)"

definition ct_in_map :: "(string \<times> (decoders \<Rightarrow> request \<Rightarrow> exn + request)) list" where
  "ct_in_map =
     [(''application/x-www-form-urlencoded'', urlencoded_processor),
      (''application/json'', json_processor),
      (''application/x-yaml'', yaml_processor),
      (''text/yaml'', yaml_processor),
      (''text/plain'', text_processor)]"

text \<open>
  CherryPy between the two hooks: the body is processed only when
  \<^verbatim>\<open>process_request_body\<close> is still true, by the processor registered for the media
  type of the \<^verbatim>\<open>Content-Type\<close> header (its value up to the first \<^verbatim>\<open>;\<close>), or by
  \<^verbatim>\<open>default_proc\<close>, the 406 that \<^verbatim>\<open>hypermedia_in\<close> installs.
\<close>

definition media_type :: "string \<Rightarrow> string" where
  "media_type h =
     rev (dropWhile (\<lambda>c. c = CHR '' '')
       (rev (dropWhile (\<lambda>c. c = CHR '' '') (takeWhile (\<lambda>c. c \<noteq> CHR '';'') h))))"

definition process_body :: "decoders \<Rightarrow> request \<Rightarrow> exn + request" where
  "process_body decs req =
     (if \<not> process_request_body req then Inr req
      else (case map_of ct_in_map
                   (media_type (case map_of (headers req) ''Content-Type'' of
                                  None \<Rightarrow> [] | Some h \<Rightarrow> h)) of
              None \<Rightarrow> Inl (HTTPError 406 ''Content type not supported'')
            | Some proc \<Rightarrow> proc decs req))"

definition lowdata_fmt :: "request \<Rightarrow> exn + request" where
  "lowdata_fmt req =
     (if upper (req_method req) \<noteq> ''POST'' then Inr req
      else (case unserialized_data req of
              None \<Rightarrow> Inl (PyError ''AttributeError'' ''unserialized_data'')
            | Some data \<Rightarrow>
                (case map_of (headers req) ''Content-Type'' of
                   None \<Rightarrow> Inl (PyError ''KeyError'' ''Content-Type'')
                 | Some ct \<Rightarrow>
                     if ct = ''application/x-www-form-urlencoded''
                     then ebind (normalize_arg data) (\<lambda>d.
                            Inr (req\<lparr>unserialized_data := Some d, lowstate := Some (PList [d])\<rparr>))
                     else Inr (req\<lparr>lowstate := Some data\<rparr>))))"

text \<open>The tools in hook order, up to the handler.\<close>

definition decode_request :: "decoders \<Rightarrow> request \<Rightarrow> exn + request" where
  "decode_request decs req = ebind (process_body decs (hypermedia_in req)) lowdata_fmt"


section \<open>The state of one request\<close>

text \<open>
  What a handler can change: the engine, the observable events, the response
  (\<^verbatim>\<open>cherrypy.response.status\<close>, \<^verbatim>\<open>.headers\<close>, \<^verbatim>\<open>.processors\<close>), the server log
  (message and, with \<^verbatim>\<open>exc_info=True\<close>, the exception) and the session:
  \<^verbatim>\<open>cherrypy.session.id\<close>, the session's items (what \<^verbatim>\<open>cherrypy.session[k] = v\<close>
  writes and \<^verbatim>\<open>cherrypy.session.get(k)\<close> reads) and its idle timeout in minutes, the
  attribute \<^verbatim>\<open>cherrypy.session.timeout\<close> that CherryPy sets from
  \<^verbatim>\<open>tools.sessions.timeout\<close> (\<^verbatim>\<open>60 * 10\<close> in \<^verbatim>\<open>LowDataAdapter._cp_config\<close>) and
  expires sessions by.
\<close>

record 'e world =
  eng :: 'e
  trace :: "event list"
  status :: nat
  out_headers :: "(string \<times> string) list"
  processors :: "(string \<times> (pyval \<Rightarrow> exn + string)) list"
  hlog :: "(string \<times> exn option) list"
  sess_id :: string
  sess_data :: "(string \<times> pyval) list"
  sess_timeout :: pyval

type_synonym 'e handler = "'e world \<Rightarrow> (exn + pyval) \<times> 'e world"

definition session_get :: "'e world \<Rightarrow> string \<Rightarrow> pyval" where
  "session_get w k = (case map_of (sess_data w) k of None \<Rightarrow> PNone | Some v \<Rightarrow> v)"

section \<open>The Content Negotiator\<close>

text \<open>
  \<^verbatim>\<open>json.dumps\<close> and \<^verbatim>\<open>yaml.safe_dump\<close> are libraries: parameters, as is
  \<^verbatim>\<open>traceback.format_exc\<close>.
\<close>

record serializers =
  json_dumps :: "pyval \<Rightarrow> exn + string"
  yaml_safe_dump :: "pyval \<Rightarrow> exn + string"

definition ct_out_map :: "serializers \<Rightarrow> (string \<times> (pyval \<Rightarrow> exn + string)) list" where
  "ct_out_map ser =
     [(''application/json'', json_dumps ser),
      (''application/x-yaml'', yaml_safe_dump ser)]"

text \<open>
  The \<^verbatim>\<open>try\<close> statement of \<^verbatim>\<open>hypermedia_handler\<close>: the value that goes on to the
  output transform, or the exception that leaves the function.
\<close>

definition run_inner ::
  "serializers \<Rightarrow> (exn \<Rightarrow> string) \<Rightarrow> bool \<Rightarrow> string \<Rightarrow> 'e handler \<Rightarrow> 'e handler" where
  "run_inner ser format_exc debug path_info inner w =
     (case inner (w\<lparr>processors := ct_out_map ser\<rparr>) of
        (Inr ret, w1) \<Rightarrow> (Inr ret, w1)
      | (Inl (EauthAuthenticationError m), w1) \<Rightarrow> (Inl (InternalRedirect ''/login''), w1)
      | (Inl (HTTPError c m), w1) \<Rightarrow> (Inl (HTTPError c m), w1)
      | (Inl (InternalRedirect p), w1) \<Rightarrow> (Inl (InternalRedirect p), w1)
      | (Inl (PyError cls m), w1) \<Rightarrow>
          (Inr (PDict [(''status'', PInt 500),
                       (''return'', PStr (if debug then format_exc (PyError cls m)
                                          else ''An unexpected error occurred''))]),
           w1\<lparr>hlog := hlog w1 @ [(''Error while processing request for: '' @ path_info,
                                    Some (PyError cls m))],
               status := 500\<rparr>))"

text \<open>
  \<^verbatim>\<open>cherrypy.lib.cptools.accept\<close> reads the request's \<^verbatim>\<open>Accept\<close> header and returns
  the best of the media types it is given, or raises 406: a parameter, from the media
  types on offer to the exception or the choice.
\<close>

definition negotiate ::
  "serializers \<Rightarrow> (string list \<Rightarrow> exn + string) \<Rightarrow> pyval \<Rightarrow> 'e world
     \<Rightarrow> (exn + string) \<times> 'e world" where
  "negotiate ser accept ret w =
     (case accept (map fst (ct_out_map ser)) of
        Inl e \<Rightarrow> (Inl e, w)
      | Inr best \<Rightarrow>
          (let w1 = w\<lparr>out_headers := AList.update ''Content-Type'' best (out_headers w)\<rparr>
           in case map_of (processors w1) best of
                None \<Rightarrow> (Inl (PyError ''KeyError'' best), w1)
              | Some out \<Rightarrow> (out ret, w1)))"

definition hypermedia_handler ::
  "serializers \<Rightarrow> (exn \<Rightarrow> string) \<Rightarrow> bool \<Rightarrow> string \<Rightarrow> (string list \<Rightarrow> exn + string)
     \<Rightarrow> 'e handler \<Rightarrow> 'e world \<Rightarrow> (exn + string) \<times> 'e world" where
  "hypermedia_handler ser format_exc debug path_info accept inner w =
     (case run_inner ser format_exc debug path_info inner w of
        (Inl e, w1) \<Rightarrow> (Inl e, w1)
      | (Inr ret, w1) \<Rightarrow> negotiate ser accept ret w1)"

section \<open>Resources that run lowstate\<close>

text \<open>
  \<^verbatim>\<open>list(self.exec_lowstate(client=..., token=...))\<close> inside a handler.
  \<^verbatim>\<open>LowDataAdapter\<close>, \<^verbatim>\<open>Minions\<close> and \<^verbatim>\<open>Jobs\<close> have
  \<^verbatim>\<open>tools.sessions.on: True\<close>; \<^verbatim>\<open>Run\<close> overrides it with \<^verbatim>\<open>False\<close>.
\<close>

definition run_lowstate ::
  "'e engine \<Rightarrow> bool \<Rightarrow> pyval \<Rightarrow> pyval \<Rightarrow> pyval option \<Rightarrow> 'e world
     \<Rightarrow> (exn + pyval list) \<times> 'e world" where
  "run_lowstate run session client token ls w =
     (case exec_lowstate run session client token ls (eng w) of
        (evs, r, s) \<Rightarrow>
          ((case r of None \<Rightarrow> Inr (yields evs) | Some e \<Rightarrow> Inl e),
           w\<lparr>eng := s, trace := trace w @ evs\<rparr>))"

definition LowDataAdapter_POST :: "'e engine \<Rightarrow> request \<Rightarrow> 'e handler" where
  "LowDataAdapter_POST run req w =
     (case run_lowstate run True PNone (session_get w ''token'') (lowstate req) w of
        (Inl e, w1) \<Rightarrow> (Inl e, w1)
      | (Inr vs, w1) \<Rightarrow> (Inr (PDict [(''return'', PList vs)]), w1))"

definition Run_POST :: "'e engine \<Rightarrow> request \<Rightarrow> 'e handler" where
  "Run_POST run req w =
     (case run_lowstate run False PNone PNone (lowstate req) w of
        (Inl e, w1) \<Rightarrow> (Inl e, w1)
      | (Inr vs, w1) \<Rightarrow> (Inr (PDict [(''return'', PList vs)]), w1))"

text \<open>
  \<^verbatim>\<open>'{0}'.format(v)\<close>: a string is inserted as it is; the text of any other value is
  Python's \<^verbatim>\<open>str\<close>, a parameter.
\<close>

definition py_format :: "(pyval \<Rightarrow> string) \<Rightarrow> pyval \<Rightarrow> string" where
  "py_format str_of v = (case v of PStr s \<Rightarrow> s | _ \<Rightarrow> str_of v)"

fun job_links :: "(pyval \<Rightarrow> string) \<Rightarrow> pyval list \<Rightarrow> exn + pyval list" where
  "job_links str_of [] = Inr []"
| "job_links str_of (i # rest) =
     (if py_truthy i
      then ebind (py_getitem i ''jid'') (\<lambda>jid.
             ebind (job_links str_of rest) (\<lambda>ls.
               Inr (PDict [(''href'', PStr (''/jobs/'' @ py_format str_of jid))] # ls)))
      else job_links str_of rest)"

definition Minions_POST :: "'e engine \<Rightarrow> (pyval \<Rightarrow> string) \<Rightarrow> request \<Rightarrow> 'e handler" where
  "Minions_POST run str_of req w =
     (case run_lowstate run True (PStr ''local_async'') (session_get w ''token'') (lowstate req) w of
        (Inl e, w1) \<Rightarrow> (Inl e, w1)
      | (Inr job_data, w1) \<Rightarrow>
          (let w2 = w1\<lparr>status := 202\<rparr>
           in case job_links str_of job_data of
                Inl e \<Rightarrow> (Inl e, w2)
              | Inr links \<Rightarrow>
                  (Inr (PDict [(''return'', PList job_data),
                               (''_links'', PDict [(''jobs'', PList links)])]), w2)))"

text \<open>The lowstate \<^verbatim>\<open>Jobs.GET\<close> builds for a job id (or for none).\<close>

definition jobs_lowstate :: "pyval \<Rightarrow> pyval list" where
  "jobs_lowstate jid =
     [PDict [(''client'', PStr ''runner''),
             (''fun'', PStr (if py_truthy jid then ''jobs.lookup_jid'' else ''jobs.list_jobs'')),
             (''jid'', jid)]]
     @ (if py_truthy jid
        then [PDict [(''client'', PStr ''runner''),
                     (''fun'', PStr ''jobs.list_job''),
                     (''jid'', jid)]]
        else [])"

definition Jobs_GET :: "'e engine \<Rightarrow> pyval \<Rightarrow> 'e handler" where
  "Jobs_GET run jid w =
     (case run_lowstate run True PNone (session_get w ''token'') (Some (PList (jobs_lowstate jid))) w of
        (Inl e, w1) \<Rightarrow> (Inl e, w1)
      | (Inr job_ret_info, w1) \<Rightarrow>
          (if py_truthy jid
           then (case job_ret_info of
                   [job_ret, job_info] \<Rightarrow>
                     (Inr (PDict [(''info'', PList [job_info]),
                                  (''return'', PList [job_ret])]), w1)
                 | _ \<Rightarrow> (Inl (PyError ''ValueError'' ''unpack''), w1))
           else (case job_ret_info of
                   [] \<Rightarrow> (Inl (PyError ''IndexError'' ''list index out of range''), w1)
                 | job_ret # _ \<Rightarrow> (Inr (PDict [(''return'', PList [job_ret])]), w1))))"

section \<open>The event streams\<close>

text \<open>
  The event bus is outside this file. A stream is the list of events
  \<^verbatim>\<open>stream.next()\<close> hands out, one after the other; when the list is used up the loop
  is waiting for the next event. \<^verbatim>\<open>json.dumps\<close> and \<^verbatim>\<open>u'...{0}'.format\<close> are
  parameters that return the text or the exception they raise.
\<close>

fun is_UnicodeDecodeError :: "exn \<Rightarrow> bool" where
  "is_UnicodeDecodeError (PyError cls msg) = (cls = ''UnicodeDecodeError'')"
| "is_UnicodeDecodeError e = False"

text \<open>\<^verbatim>\<open>data.get(k, default)\<close>.\<close>

fun py_get :: "pyval \<Rightarrow> string \<Rightarrow> pyval \<Rightarrow> exn + pyval" where
  "py_get (PDict d) k dflt = Inr (case map_of d k of None \<Rightarrow> dflt | Some v \<Rightarrow> v)"
| "py_get v k dflt = Inl (PyError ''AttributeError'' ''get'')"

text \<open>The \<^verbatim>\<open>while True\<close> loop of \<^verbatim>\<open>Events.GET.listen\<close>.\<close>

fun listen_loop ::
  "(pyval \<Rightarrow> exn + string) \<Rightarrow> (pyval \<Rightarrow> exn + string) \<Rightarrow> pyval list \<Rightarrow> event list \<times> exn option" where
  "listen_loop dumps format0 [] = ([], None)"
| "listen_loop dumps format0 (data # rest) =
     (case ebind (py_get data ''tag'' (PStr [])) format0 of
        Inl e \<Rightarrow> ([], Some e)
      | Inr tag \<Rightarrow>
          (case dumps data of
             Inl e \<Rightarrow> ([Yield (PStr (''tag: '' @ tag @ [CHR 0x0A]))], Some e)
           | Inr js \<Rightarrow>
               (case listen_loop dumps format0 rest of
                  (evs, r) \<Rightarrow>
                    (Yield (PStr (''tag: '' @ tag @ [CHR 0x0A]))
                       # Yield (PStr (''data: '' @ js @ [CHR 0x0A, CHR 0x0A])) # evs, r))))"

definition listen ::
  "(pyval \<Rightarrow> exn + string) \<Rightarrow> (pyval \<Rightarrow> exn + string) \<Rightarrow> pyval list \<Rightarrow> event list \<times> exn option" where
  "listen dumps format0 stream =
     (case listen_loop dumps format0 stream of
        (evs, r) \<Rightarrow> (Subscribed # Yield (PStr (''retry: 400'' @ [CHR 0x0A])) # evs, r))"

text \<open>
  The session token of a streaming request: from the session named in the URL
  (\<^verbatim>\<open>cherrypy.session.cache\<close>, session id to items) or from the request's own session.
\<close>

definition stream_token :: "(string \<times> (string \<times> pyval) list) list \<Rightarrow> string option \<Rightarrow> 'e world \<Rightarrow> pyval" where
  "stream_token cache token w =
     (case token of
        None \<Rightarrow> session_get w ''token''
      | Some t \<Rightarrow>
          if t = [] then session_get w ''token''
          else (case map_of (case map_of cache t of None \<Rightarrow> [] | Some d \<Rightarrow> d) ''token'' of
                  None \<Rightarrow> PNone | Some v \<Rightarrow> v))"

text \<open>
  \<^verbatim>\<open>Events.GET\<close>, with the generator it returns run by the server over \<open>stream\<close>.
  \<^verbatim>\<open>self.auth.get_tok\<close> is the auth backend: a parameter.
\<close>

definition Events_GET ::
  "(pyval \<Rightarrow> pyval) \<Rightarrow> (string \<times> (string \<times> pyval) list) list \<Rightarrow> (pyval \<Rightarrow> exn + string)
     \<Rightarrow> (pyval \<Rightarrow> exn + string) \<Rightarrow> string option \<Rightarrow> pyval list \<Rightarrow> 'e world
     \<Rightarrow> exn option \<times> 'e world" where
  "Events_GET get_tok cache dumps format0 token stream w =
     (let salt_token = stream_token cache token w
      in if \<not> py_truthy salt_token then (Some (InternalRedirect ''/login''), w)
         else if \<not> py_truthy (get_tok salt_token)
         then (Some (InternalRedirect ''/login''),
               w\<lparr>trace := trace w @ [TokenChecked salt_token]\<rparr>)
         else (case listen dumps format0 stream of
                 (evs, r) \<Rightarrow>
                   (r, w\<lparr>trace := trace w @ [TokenChecked salt_token, LockReleased] @ evs,
                         out_headers :=
                           AList.update ''Connection'' ''keep-alive''
                             (AList.update ''Cache-Control'' ''no-cache''
                               (AList.update ''Content-Type'' ''text/event-stream''
                                 (out_headers w)))\<rparr>)))"

text \<open>
  The \<^verbatim>\<open>while True\<close> loop of \<^verbatim>\<open>WebsocketEndpoint.GET.event_stream\<close>.
  \<^verbatim>\<open>SaltInfo.process\<close> is a parameter: the messages it sends, or the exception.
\<close>

fun event_stream_loop ::
  "(pyval \<Rightarrow> exn + string) \<Rightarrow> (pyval \<Rightarrow> exn + string list) \<Rightarrow> (pyval \<Rightarrow> string) \<Rightarrow> bool
     \<Rightarrow> pyval list \<Rightarrow> event list \<times> exn option" where
  "event_stream_loop dumps process str_of format_events [] = ([], None)"
| "event_stream_loop dumps process str_of format_events (data # rest) =
     (if py_truthy data
      then (case (if format_events then process data
                  else ebind (dumps data) (\<lambda>js. Inr [''data: '' @ js @ [CHR 0x0A, CHR 0x0A]])) of
              Inr msgs \<Rightarrow>
                (case event_stream_loop dumps process str_of format_events rest of
                   (evs, r) \<Rightarrow> (map Sent msgs @ Slept # evs, r))
            | Inl e \<Rightarrow>
                if is_UnicodeDecodeError e
                then (case event_stream_loop dumps process str_of format_events rest of
                        (evs, r) \<Rightarrow>
                          (Logged (''Error: Salt event has non UTF-8 data:'' @ [CHR 0x0A]
                                     @ py_format str_of data) # Slept # evs, r))
                else ([], Some e))
      else (case event_stream_loop dumps process str_of format_events rest of
              (evs, r) \<Rightarrow> (Slept # evs, r)))"

definition event_stream ::
  "(pyval \<Rightarrow> exn + string) \<Rightarrow> (pyval \<Rightarrow> exn + string list) \<Rightarrow> (pyval \<Rightarrow> string) \<Rightarrow> bool
     \<Rightarrow> pyval list \<Rightarrow> event list \<times> exn option" where
  "event_stream dumps process str_of format_events stream =
     (case event_stream_loop dumps process str_of format_events stream of
        (evs, r) \<Rightarrow> (Subscribed # evs, r))"

text \<open>
  \<^verbatim>\<open>WebsocketEndpoint.GET\<close>, with the process it starts run over \<open>stream\<close> once the
  client is ready.
\<close>

definition WebsocketEndpoint_GET ::
  "(pyval \<Rightarrow> pyval) \<Rightarrow> (string \<times> (string \<times> pyval) list) list \<Rightarrow> (pyval \<Rightarrow> exn + string)
     \<Rightarrow> (pyval \<Rightarrow> exn + string list) \<Rightarrow> (pyval \<Rightarrow> string) \<Rightarrow> bool \<Rightarrow> string option
     \<Rightarrow> pyval list \<Rightarrow> 'e world \<Rightarrow> exn option \<times> 'e world" where
  "WebsocketEndpoint_GET get_tok cache dumps process str_of format_events token stream w =
     (let salt_token = stream_token cache token w
      in if \<not> py_truthy salt_token then (Some (HTTPError 401 []), w)
         else if \<not> py_truthy (get_tok salt_token)
         then (Some (HTTPError 401 []), w\<lparr>trace := trace w @ [TokenChecked salt_token]\<rparr>)
         else (case event_stream dumps process str_of format_events stream of
                 (evs, r) \<Rightarrow>
                   (r, w\<lparr>trace := trace w @ [TokenChecked salt_token, LockReleased] @ evs\<rparr>)))"

text \<open>
  The order the claims about the session lock are about: walking a trace with the lock
  held at first, no engine call and no subscription happens while it is held.
\<close>

fun released_first :: "bool \<Rightarrow> event list \<Rightarrow> bool" where
  "released_first locked [] = True"
| "released_first locked (LockReleased # evs) = released_first False evs"
| "released_first locked (EngineRun c # evs) = (\<not> locked \<and> released_first locked evs)"
| "released_first locked (Subscribed # evs) = (\<not> locked \<and> released_first locked evs)"
| "released_first locked (ev # evs) = released_first locked evs"


section \<open>Login\<close>











section \<open>What the engine is asked, and what it answers\<close>

text \<open>
  For stating the order of execution: the answers of the engine when it is handed the
  chunks \<open>cs\<close> one after the other from state \<open>s\<close>, the values one answer produces,
  and the events of one chunk (the call, then every value it produces).
\<close>

fun engine_rets :: "'e engine \<Rightarrow> 'e \<Rightarrow> pyval list \<Rightarrow> engine_ret list" where
  "engine_rets run s [] = []"
| "engine_rets run s (c # cs) = (case run s c of (r, s1) \<Rightarrow> r # engine_rets run s1 cs)"

fun produced :: "engine_ret \<Rightarrow> pyval list" where
  "produced (Single v) = [v]"
| "produced (Iterator vs e) = vs"
| "produced (Raised e) = []"

definition block :: "pyval \<Rightarrow> engine_ret \<Rightarrow> event list" where
  "block c r = EngineRun c # map Yield (produced r)"

text \<open>What normalising \<^verbatim>\<open>arg\<close> does to a dictionary.\<close>

definition wrap_arg :: "(string \<times> pyval) list \<Rightarrow> (string \<times> pyval) list" where
  "wrap_arg d = (case map_of d ''arg'' of
                   None \<Rightarrow> d
                 | Some a \<Rightarrow> if is_list a then d else AList.update ''arg'' (PList [a]) d)"

section \<open>Concrete inputs for the examples\<close>

text \<open>
  Stand-ins for the collaborators, used only where a theorem is applied to a concrete
  request: an engine that numbers its calls and answers the first with an iterator;
  serializers that name their format and show a textual \<^verbatim>\<open>return\<close>; handlers that only
  raise or only return; an \<^verbatim>\<open>accept\<close> that knows exact media types only
  (the first range of the header that is on offer, else 406); a \<^verbatim>\<open>json.dumps\<close> that
  raises \<^verbatim>\<open>UnicodeDecodeError\<close> on a string holding the byte \<^verbatim>\<open>0xFF\<close> at top level
  of the event's \<^verbatim>\<open>data\<close>; decoders that know the bodies \<^verbatim>\<open>{}\<close>, \<^verbatim>\<open>[]\<close> and
  \<^verbatim>\<open>fun=test.ping&arg=x\<close>; a rounding that is exact, as it is on the numbers of the
  examples.
\<close>

definition example_engine :: "nat engine" where
  "example_engine s c =
     (if s = 0 then Iterator [PInt 1, PInt 2] None else Single (PDict [(''jid'', PStr ''2013'')]),
      Suc s)"

definition show_return :: "pyval \<Rightarrow> string" where
  "show_return v = (case py_get v ''return'' PNone of Inr (PStr s) \<Rightarrow> s | _ \<Rightarrow> ''...'')"

definition example_ser :: serializers where
  "example_ser = \<lparr>json_dumps = (\<lambda>v. Inr (''json: '' @ show_return v)),
                   yaml_safe_dump = (\<lambda>v. Inr (''yaml: '' @ show_return v))\<rparr>"

definition example_format_exc :: "exn \<Rightarrow> string" where
  "example_format_exc e = ''Traceback (most recent call last)''"

definition raising_handler :: "exn \<Rightarrow> 'e handler" where
  "raising_handler e w = (Inl e, w)"

definition returning_handler :: "pyval \<Rightarrow> 'e handler" where
  "returning_handler v w = (Inr v, w)"

definition accept_exact :: "string list \<Rightarrow> string list \<Rightarrow> exn + string" where
  "accept_exact ranges media =
     (case filter (\<lambda>r. r \<in> set media) ranges of
        [] \<Rightarrow> Inl (HTTPError 406 ''But this resource only emits these media types'')
      | r # _ \<Rightarrow> Inr r)"

definition example_world :: "nat world" where
  "example_world =
     \<lparr>eng = 0, trace = [], status = 200, out_headers = [], processors = [], hlog = [],
      sess_id = ''6d1b722e'', sess_data = [(''token'', PStr ''tok'')],
      sess_timeout = PInt (60 * 10)\<rparr>"

definition example_world_no_session :: "nat world" where
  "example_world_no_session =
     \<lparr>eng = 0, trace = [], status = 200, out_headers = [], processors = [], hlog = [],
      sess_id = [], sess_data = [], sess_timeout = PNone\<rparr>"

definition example_decoders :: decoders where
  "example_decoders =
     \<lparr>json_loads = (\<lambda>b. if b = ''{}'' then Inr (PDict [])
                         else if b = ''[]'' then Inr (PList [])
                         else Inl (PyError ''ValueError'' ''No JSON object could be decoded'')),
      yaml_safe_load = (\<lambda>b. if b = ''{}'' then Inr (PDict [])
                             else if b = ''[]'' then Inr (PList [])
                             else Inr (PStr b)),
      process_urlencoded = (\<lambda>b. if b = ''fun=test.ping&arg=x''
                                 then Inr (PDict [(''fun'', PStr ''test.ping''), (''arg'', PStr ''x'')])
                                 else Inr (PDict []))\<rparr>"


definition example_dumps :: "pyval \<Rightarrow> exn + string" where
  "example_dumps v =
     (if py_get v ''data'' PNone = Inr (PStr [CHR 0xFF])
      then Inl (PyError ''UnicodeDecodeError'' ''invalid start byte'')
      else Inr ''{}'')"

definition example_format0 :: "pyval \<Rightarrow> exn + string" where
  "example_format0 v = Inr (case v of PStr s \<Rightarrow> s | _ \<Rightarrow> ''?'')"

definition example_str_of :: "pyval \<Rightarrow> string" where
  "example_str_of v = ''?''"

definition example_async_engine :: "nat engine" where
  "example_async_engine s c =
     (Single (PDict [(''jid'', PStr ''20130603122505459265''),
                     (''minions'', PList [PStr ''ms-0'', PStr ''ms-1''])]), Suc s)"

definition example_get_tok :: "pyval \<Rightarrow> pyval" where
  "example_get_tok t = (if t = PStr ''tok'' then PDict [(''name'', PStr ''saltuser'')] else PDict [])"



section \<open>Properties of the Lowstate Executor\<close>

lemma py_contains_dict: "py_contains k (PDict d) = Inr (map_of d k \<noteq> None)"
  by (simp add: map_of_eq_None_iff)

lemma normalize_arg_dict:
  "normalize_arg (PDict d) =
     Inr (PDict (case map_of d ''arg'' of
                   None \<Rightarrow> d
                 | Some a \<Rightarrow> if is_list a then d else AList.update ''arg'' (PList [a]) d))"
  by (simp add: normalize_arg_def ebind_def py_contains_dict del: py_contains.simps
           split: option.splits)

lemma inject_dict:
  "inject k v (PDict d) = Inr (PDict (if py_truthy v then AList.update k v d else d))"
  by (simp add: inject_def)

lemma prep_chunk_dict:
  "\<exists>d'. prep_chunk client token (PDict d) = Inr (PDict d')
     \<and> (py_truthy token \<longrightarrow> map_of d' ''token'' = Some token)
     \<and> (\<not> py_truthy token \<longrightarrow> map_of d' ''token'' = map_of d ''token'')
     \<and> (py_truthy client \<longrightarrow> map_of d' ''client'' = Some client)
     \<and> (\<not> py_truthy client \<longrightarrow> map_of d' ''client'' = map_of d ''client'')
     \<and> map_of d' ''arg'' = map_option (\<lambda>a. if is_list a then a else PList [a]) (map_of d ''arg'')
     \<and> (\<forall>k. k \<noteq> ''token'' \<and> k \<noteq> ''client'' \<and> k \<noteq> ''arg'' \<longrightarrow> map_of d' k = map_of d k)"
  by (auto simp: prep_chunk_def ebind_def inject_dict normalize_arg_dict update_conv'
           split: option.splits)

lemma yields_append: "yields (a @ b) = yields a @ yields b"
  by (induction a rule: yields.induct) auto

lemma yields_map_Yield: "yields (map Yield vs) = vs"
  by (induction vs) auto

lemma engine_calls_append: "engine_calls (a @ b) = engine_calls a @ engine_calls b"
  by (induction a rule: engine_calls.induct) auto

lemma engine_calls_map_Yield: "engine_calls (map Yield vs) = []"
  by (induction vs) auto

lemma exec_chunks_blocks:
  "exec_chunks run client token chunks s = (evs, None, s') \<Longrightarrow>
   \<exists>cs. map (prep_chunk client token) chunks = map Inr cs
      \<and> evs = concat (map2 block cs (engine_rets run s cs))"
proof (induction chunks arbitrary: s evs s')
  case Nil
  then show ?case by simp
next
  case (Cons chunk rest)
  from Cons.prems obtain c where c: "prep_chunk client token chunk = Inr c"
    by (auto split: sum.splits)
  obtain r s1 where r: "run s c = (r, s1)" by (cases "run s c")
  obtain evs1 r1 s2 where rest: "exec_chunks run client token rest s1 = (evs1, r1, s2)"
    by (cases "exec_chunks run client token rest s1")
  from Cons.prems c r rest have r1: "r1 = None" and evs: "evs = block c r @ evs1"
    by (auto simp: block_def split: engine_ret.splits option.splits)
  from rest r1 have "exec_chunks run client token rest s1 = (evs1, None, s2)" by simp
  from Cons.IH[OF this] obtain cs where
    "map (prep_chunk client token) rest = map Inr cs"
    "evs1 = concat (map2 block cs (engine_rets run s1 cs))" by blast
  with evs have "map (prep_chunk client token) (chunk # rest) = map Inr (c # cs)
      \<and> evs = concat (map2 block (c # cs) (engine_rets run s (c # cs)))"
    using c r by simp
  then show ?case by blast
qed

lemma length_engine_rets: "length (engine_rets run s cs) = length cs"
  by (induction cs arbitrary: s) (auto split: prod.splits)

lemma calls_blocks:
  "length cs = length rs \<Longrightarrow> engine_calls (concat (map2 block cs rs)) = cs"
  by (induction cs rs rule: list_induct2)
     (auto simp: block_def engine_calls_append engine_calls_map_Yield)

lemma yields_blocks:
  "length cs = length rs \<Longrightarrow> yields (concat (map2 block cs rs)) = concat (map produced rs)"
  by (induction cs rs rule: list_induct2) (auto simp: block_def yields_append yields_map_Yield)

text \<open>
  C1. When \<^verbatim>\<open>exec_lowstate\<close> runs a batch to its end, every chunk was prepared
  (\<open>cs\<close> are the prepared chunks, in submission order), the lock was released first, and
  the events are one block per chunk in that order: the engine's call on the prepared
  chunk, then each value the call produced (one for a single result, all of an
  iterator's in the order produced), before the next chunk's call. So the engine is
  called once per descriptor, in order, and the values yielded are the engine's answers
  concatenated. Preparing a mapping puts a non-empty fixed token under \<^verbatim>\<open>token\<close>, a
  non-empty fixed client under \<^verbatim>\<open>client\<close>, wraps an \<^verbatim>\<open>arg\<close> that is not a list into
  a one-element list and leaves every other key as it was. The loop is sequential:
  the engine's state after one chunk is the state the next call starts from.
\<close>

theorem exec_lowstate_in_submission_order:
  assumes "exec_lowstate run session client token (Some (PList chunks)) s = (evs, None, s')"
  shows "(\<exists>cs. map (prep_chunk client token) chunks = map Inr cs
            \<and> evs = LockReleased # concat (map2 block cs (engine_rets run s cs))
            \<and> engine_calls evs = cs
            \<and> yields evs = concat (map produced (engine_rets run s cs)))
         \<and> (\<forall>d. \<exists>d'. prep_chunk client token (PDict d) = Inr (PDict d')
              \<and> (py_truthy token \<longrightarrow> map_of d' ''token'' = Some token)
              \<and> (\<not> py_truthy token \<longrightarrow> map_of d' ''token'' = map_of d ''token'')
              \<and> (py_truthy client \<longrightarrow> map_of d' ''client'' = Some client)
              \<and> (\<not> py_truthy client \<longrightarrow> map_of d' ''client'' = map_of d ''client'')
              \<and> map_of d' ''arg''
                  = map_option (\<lambda>a. if is_list a then a else PList [a]) (map_of d ''arg'')
              \<and> (\<forall>k. k \<noteq> ''token'' \<and> k \<noteq> ''client'' \<and> k \<noteq> ''arg''
                     \<longrightarrow> map_of d' k = map_of d k))"
proof -
  from assms obtain evs1 where e: "exec_chunks run client token chunks s = (evs1, None, s')"
    and evs: "evs = LockReleased # evs1"
    by (auto simp: exec_lowstate_def split: prod.splits if_splits)
  from exec_chunks_blocks[OF e] obtain cs where
    cs: "map (prep_chunk client token) chunks = map Inr cs"
        "evs1 = concat (map2 block cs (engine_rets run s cs))" by blast
  have "engine_calls evs = cs" "yields evs = concat (map produced (engine_rets run s cs))"
    using evs cs(2) by (simp_all add: calls_blocks yields_blocks length_engine_rets)
  with cs evs have "\<exists>cs. map (prep_chunk client token) chunks = map Inr cs
            \<and> evs = LockReleased # concat (map2 block cs (engine_rets run s cs))
            \<and> engine_calls evs = cs
            \<and> yields evs = concat (map produced (engine_rets run s cs))" by blast
  then show ?thesis using prep_chunk_dict by blast
qed

theorem exec_lowstate_in_submission_order_witness:
  "exec_lowstate
     (\<lambda>s c. (if s = (0::nat) then Iterator [PInt 1, PInt 2] None else Single (PInt 3), Suc s))
     True (PStr ''local'') (PStr ''tok'')
     (Some (PList [PDict [(''fun'', PStr ''a''), (''arg'', PStr ''x'')],
                   PDict [(''fun'', PStr ''b'')]])) 0
   = ([LockReleased,
       EngineRun (PDict [(''fun'', PStr ''a''), (''arg'', PList [PStr ''x'']),
                         (''token'', PStr ''tok''), (''client'', PStr ''local'')]),
       Yield (PInt 1), Yield (PInt 2),
       EngineRun (PDict [(''fun'', PStr ''b''), (''token'', PStr ''tok''),
                         (''client'', PStr ''local'')]),
       Yield (PInt 3)], None, 2)
   \<and> py_truthy (PStr ''tok'') \<and> py_truthy (PStr ''local'')
   \<and> (\<exists>d'. prep_chunk (PStr ''local'') (PStr ''tok'')
               (PDict [(''fun'', PStr ''a''), (''arg'', PStr ''x'')]) = Inr (PDict d')
          \<and> map_of d' ''token'' = Some (PStr ''tok'')
          \<and> map_of d' ''client'' = Some (PStr ''local'')
          \<and> map_of d' ''arg'' = Some (PList [PStr ''x'']))"
proof -
  have h: "exec_lowstate
     (\<lambda>s c. (if s = (0::nat) then Iterator [PInt 1, PInt 2] None else Single (PInt 3), Suc s))
     True (PStr ''local'') (PStr ''tok'')
     (Some (PList [PDict [(''fun'', PStr ''a''), (''arg'', PStr ''x'')],
                   PDict [(''fun'', PStr ''b'')]])) 0
   = ([LockReleased,
       EngineRun (PDict [(''fun'', PStr ''a''), (''arg'', PList [PStr ''x'']),
                         (''token'', PStr ''tok''), (''client'', PStr ''local'')]),
       Yield (PInt 1), Yield (PInt 2),
       EngineRun (PDict [(''fun'', PStr ''b''), (''token'', PStr ''tok''),
                         (''client'', PStr ''local'')]),
       Yield (PInt 3)], None, 2)"
    by (simp add: exec_lowstate_def prep_chunk_def inject_def normalize_arg_def ebind_def)
  show ?thesis
    using h exec_lowstate_in_submission_order [OF h]
    by (simp add: prep_chunk_def inject_def normalize_arg_def ebind_def)
qed


section \<open>Properties of the Body Decoder\<close>

lemma map_of_wrap_arg:
  "map_of (wrap_arg d) k =
     (if k = ''arg'' then map_option (\<lambda>a. if is_list a then a else PList [a]) (map_of d ''arg'')
      else map_of d k)"
  by (simp add: wrap_arg_def update_conv' split: option.splits)

lemma lowdata_fmt_form:
  assumes "upper (req_method req) = ''POST''"
      "map_of (headers req) ''Content-Type'' = Some ''application/x-www-form-urlencoded''"
      "unserialized_data req = Some (PDict d)"
  shows "lowdata_fmt req
            = Inr (req\<lparr>unserialized_data := Some (PDict (wrap_arg d)),
                        lowstate := Some (PList [PDict (wrap_arg d)])\<rparr>)"
  using assms by (simp add: lowdata_fmt_def normalize_arg_dict ebind_def wrap_arg_def)

lemma exec_single_calls:
  "prep_chunk client token c = Inr c' \<Longrightarrow>
   engine_calls (fst (exec_lowstate run True client token (Some (PList [c])) s)) = [c']"
  by (cases "run s c'")
     (auto simp: exec_lowstate_def engine_calls_map_Yield split: engine_ret.splits option.splits)

lemma prep_chunk_list_arg:
  assumes "map_of d ''arg'' = Some (PList xs)"
  shows "\<exists>d'. prep_chunk client token (PDict d) = Inr (PDict d')
            \<and> map_of d' ''arg'' = Some (PList xs)
            \<and> engine_calls (fst (exec_lowstate run True client token (Some (PList [PDict d])) s))
                = [PDict d']"
proof -
  obtain d' where p: "prep_chunk client token (PDict d) = Inr (PDict d')"
    and a: "map_of d' ''arg''
              = map_option (\<lambda>a. if is_list a then a else PList [a]) (map_of d ''arg'')"
    using prep_chunk_dict[of client token d] by (elim exE conjE)
  from a assms have "map_of d' ''arg'' = Some (PList xs)" by simp
  with p exec_single_calls[OF p, of run s] show ?thesis by (intro exI[of _ d']) simp
qed

text \<open>
  Where the resource has a session (\<^verbatim>\<open>POST /\<close>, \<^verbatim>\<open>POST /minions\<close>): a decoded body
  that is not a list, on a POST whose \<^verbatim>\<open>Content-Type\<close> header is not the form-encoded
  one, becomes the lowstate unchanged; \<^verbatim>\<open>exec_lowstate\<close> releases the lock and raises
  \<^verbatim>\<open>HTTPError(400, 'Lowstates must be a list')\<close> without calling the engine, and the
  content negotiator passes that error on.
\<close>

lemma non_list_lowstate_with_session:
  assumes "upper (req_method req) = ''POST''"
      and "map_of (headers req) ''Content-Type'' = Some ct"
      and "ct \<noteq> ''application/x-www-form-urlencoded''"
      and "unserialized_data req = Some data"
      and "\<not> is_list data"
  shows "lowdata_fmt req = Inr (req\<lparr>lowstate := Some data\<rparr>)
       \<and> exec_lowstate run True client token (lowstate (req\<lparr>lowstate := Some data\<rparr>)) s
           = ([LockReleased], Some (HTTPError 400 ''Lowstates must be a list''), s)
       \<and> fst (hypermedia_handler ser format_exc debug path_info accept
                (LowDataAdapter_POST run (req\<lparr>lowstate := Some data\<rparr>)) w)
           = Inl (HTTPError 400 ''Lowstates must be a list'')"
proof -
  have a: "lowdata_fmt req = Inr (req\<lparr>lowstate := Some data\<rparr>)"
    using assms by (simp add: lowdata_fmt_def)
  have b: "exec_lowstate run True client token (Some data) s
           = ([LockReleased], Some (HTTPError 400 ''Lowstates must be a list''), s)"
    for client token s
    using assms(5) by (cases data) (simp_all add: exec_lowstate_def)
  have c: "fst (LowDataAdapter_POST run (req\<lparr>lowstate := Some data\<rparr>) w')
             = Inl (HTTPError 400 ''Lowstates must be a list'')" for w'
    by (simp add: LowDataAdapter_POST_def run_lowstate_def b)
  have "fst (hypermedia_handler ser format_exc debug path_info accept
                (LowDataAdapter_POST run (req\<lparr>lowstate := Some data\<rparr>)) w)
           = Inl (HTTPError 400 ''Lowstates must be a list'')"
    using c[of "w\<lparr>processors := ct_out_map ser\<rparr>"]
    by (cases "LowDataAdapter_POST run (req\<lparr>lowstate := Some data\<rparr>)
                 (w\<lparr>processors := ct_out_map ser\<rparr>)")
       (simp add: hypermedia_handler_def run_inner_def)
  with a b show ?thesis by simp
qed

text \<open>
  Without a session the list check is never reached: whatever the lowstate is,
  \<^verbatim>\<open>exec_lowstate\<close> raises \<^verbatim>\<open>AttributeError\<close> at
  \<^verbatim>\<open>cherrypy.session.release_lock()\<close>, with nothing done.
\<close>

lemma exec_lowstate_without_session:
  "exec_lowstate run False client token (Some v) s
     = ([], Some (PyError ''AttributeError'' ''session''), s)"
  by (simp add: exec_lowstate_def)

text \<open>
  C4, at \<^verbatim>\<open>POST /run\<close> with the JSON object \<^verbatim>\<open>{}\<close> as body and
  \<^verbatim>\<open>Accept: application/json\<close>. The body is decoded to a mapping and stored as the
  lowstate, not wrapped. \<^verbatim>\<open>Run\<close> has \<^verbatim>\<open>tools.sessions.on: False\<close>, so
  \<^verbatim>\<open>exec_lowstate\<close> raises \<^verbatim>\<open>AttributeError\<close> at
  \<^verbatim>\<open>cherrypy.session.release_lock()\<close> before it reaches the list check:
  \<^verbatim>\<open>hypermedia_handler\<close> turns that into the status-500 envelope. The same request to
  \<^verbatim>\<open>POST /\<close>, which has a session, is answered with
  \<^verbatim>\<open>HTTPError(400, 'Lowstates must be a list')\<close>.
\<close>

theorem run_post_non_list_raises_AttributeError:
  "decode_request example_decoders
     \<lparr>req_method = ''POST'',
      headers = [(''Content-Type'', ''application/json''), (''Content-Length'', ''2'')],
      body = ''{}'', process_request_body = True, unserialized_data = None, lowstate = None\<rparr>
   = Inr \<lparr>req_method = ''POST'',
          headers = [(''Content-Type'', ''application/json''), (''Content-Length'', ''2'')],
          body = ''{}'', process_request_body = True, unserialized_data = Some (PDict []),
          lowstate = Some (PDict [])\<rparr>
   \<and> Run_POST example_engine
        \<lparr>req_method = ''POST'',
         headers = [(''Content-Type'', ''application/json''), (''Content-Length'', ''2'')],
         body = ''{}'', process_request_body = True, unserialized_data = Some (PDict []),
         lowstate = Some (PDict [])\<rparr> example_world_no_session
     = (Inl (PyError ''AttributeError'' ''session''), example_world_no_session)
   \<and> fst (hypermedia_handler example_ser example_format_exc False ''/run''
            (accept_exact [''application/json''])
            (Run_POST example_engine
               \<lparr>req_method = ''POST'',
                headers = [(''Content-Type'', ''application/json''), (''Content-Length'', ''2'')],
                body = ''{}'', process_request_body = True, unserialized_data = Some (PDict []),
                lowstate = Some (PDict [])\<rparr>) example_world_no_session)
     = Inr ''json: An unexpected error occurred''
   \<and> status (snd (hypermedia_handler example_ser example_format_exc False ''/run''
            (accept_exact [''application/json''])
            (Run_POST example_engine
               \<lparr>req_method = ''POST'',
                headers = [(''Content-Type'', ''application/json''), (''Content-Length'', ''2'')],
                body = ''{}'', process_request_body = True, unserialized_data = Some (PDict []),
                lowstate = Some (PDict [])\<rparr>) example_world_no_session))
     = 500
   \<and> fst (hypermedia_handler example_ser example_format_exc False ''/''
            (accept_exact [''application/json''])
            (LowDataAdapter_POST example_engine
               \<lparr>req_method = ''POST'',
                headers = [(''Content-Type'', ''application/json''), (''Content-Length'', ''2'')],
                body = ''{}'', process_request_body = True, unserialized_data = Some (PDict []),
                lowstate = Some (PDict [])\<rparr>) example_world)
     = Inl (HTTPError 400 ''Lowstates must be a list'')"
proof -
  have 1: "decode_request example_decoders
     \<lparr>req_method = ''POST'',
      headers = [(''Content-Type'', ''application/json''), (''Content-Length'', ''2'')],
      body = ''{}'', process_request_body = True, unserialized_data = None, lowstate = None\<rparr>
   = Inr \<lparr>req_method = ''POST'',
          headers = [(''Content-Type'', ''application/json''), (''Content-Length'', ''2'')],
          body = ''{}'', process_request_body = True, unserialized_data = Some (PDict []),
          lowstate = Some (PDict [])\<rparr>"
    by (simp add: decode_request_def hypermedia_in_def process_body_def media_type_def
          ct_in_map_def json_processor_def example_decoders_def lowdata_fmt_def ebind_def
          upper_def)
  have 2: "Run_POST example_engine
        \<lparr>req_method = ''POST'',
         headers = [(''Content-Type'', ''application/json''), (''Content-Length'', ''2'')],
         body = ''{}'', process_request_body = True, unserialized_data = Some (PDict []),
         lowstate = Some (PDict [])\<rparr> w
     = (Inl (PyError ''AttributeError'' ''session''), w)" for w :: "nat world"
    by (simp add: Run_POST_def run_lowstate_def exec_lowstate_def)
  have 3: "LowDataAdapter_POST example_engine
        \<lparr>req_method = ''POST'',
         headers = [(''Content-Type'', ''application/json''), (''Content-Length'', ''2'')],
         body = ''{}'', process_request_body = True, unserialized_data = Some (PDict []),
         lowstate = Some (PDict [])\<rparr> w
     = (Inl (HTTPError 400 ''Lowstates must be a list''), w\<lparr>trace := trace w @ [LockReleased]\<rparr>)"
    for w :: "nat world"
    by (simp add: LowDataAdapter_POST_def run_lowstate_def exec_lowstate_def)
  show ?thesis
    by (simp add: 1 2 3 hypermedia_handler_def run_inner_def negotiate_def accept_exact_def
          ct_out_map_def example_ser_def show_return_def)
qed

text \<open>
  C5, at the request the claim is about: a POST with an empty body and
  \<^verbatim>\<open>Content-Length: 0\<close>. \<^verbatim>\<open>hypermedia_in\<close> switches body processing off, so no
  processor runs and \<^verbatim>\<open>unserialized_data\<close> is never assigned; \<^verbatim>\<open>lowdata_fmt\<close> then
  reads that attribute and raises \<^verbatim>\<open>AttributeError\<close>. No lowstate is set, empty or
  otherwise.
\<close>

theorem empty_post_raises_AttributeError:
  "hypermedia_in
     \<lparr>req_method = ''POST'', headers = [(''Content-Length'', ''0'')], body = [],
      process_request_body = True, unserialized_data = None, lowstate = None\<rparr>
   = \<lparr>req_method = ''POST'', headers = [(''Content-Length'', ''0'')], body = [],
      process_request_body = False, unserialized_data = None, lowstate = None\<rparr>
   \<and> decode_request decs
     \<lparr>req_method = ''POST'', headers = [(''Content-Length'', ''0'')], body = [],
      process_request_body = True, unserialized_data = None, lowstate = None\<rparr>
   = Inl (PyError ''AttributeError'' ''unserialized_data'')"
  by (simp add: decode_request_def hypermedia_in_def process_body_def lowdata_fmt_def
        ebind_def upper_def)

text \<open>
  Where the \<^verbatim>\<open>Content-Type\<close> header of a POST is exactly
  \<^verbatim>\<open>application/x-www-form-urlencoded\<close>: \<^verbatim>\<open>lowdata_fmt\<close> makes the lowstate the
  one-element list of the parsed mapping, in which an \<^verbatim>\<open>arg\<close> that is not a list has
  become the one-element list of it, an \<^verbatim>\<open>arg\<close> that is a list is as it was, and
  every other key is unchanged. And on a resource with a session, a descriptor whose
  \<^verbatim>\<open>arg\<close> is a list reaches the engine with that same list, whatever client and
  token are fixed.
\<close>

lemma form_arg_coerced_exact_header:
  "(upper (req_method req) = ''POST''
      \<and> map_of (headers req) ''Content-Type'' = Some ''application/x-www-form-urlencoded''
      \<and> unserialized_data req = Some (PDict d)
    \<longrightarrow> (\<exists>d'. lowdata_fmt req
                 = Inr (req\<lparr>unserialized_data := Some (PDict d'), lowstate := Some (PList [PDict d'])\<rparr>)
            \<and> map_of d' ''arg''
                = map_option (\<lambda>a. if is_list a then a else PList [a]) (map_of d ''arg'')
            \<and> (\<forall>k. k \<noteq> ''arg'' \<longrightarrow> map_of d' k = map_of d k)))
   \<and> (map_of d ''arg'' = Some (PList xs)
    \<longrightarrow> (\<exists>d'. prep_chunk client token (PDict d) = Inr (PDict d')
            \<and> map_of d' ''arg'' = Some (PList xs)
            \<and> engine_calls (fst (exec_lowstate run True client token (Some (PList [PDict d])) s))
                = [PDict d']))"
proof (intro conjI impI)
  assume h: "upper (req_method req) = ''POST''
      \<and> map_of (headers req) ''Content-Type'' = Some ''application/x-www-form-urlencoded''
      \<and> unserialized_data req = Some (PDict d)"
  then have "lowdata_fmt req
            = Inr (req\<lparr>unserialized_data := Some (PDict (wrap_arg d)),
                        lowstate := Some (PList [PDict (wrap_arg d)])\<rparr>)"
    by (intro lowdata_fmt_form) simp_all
  then show "\<exists>d'. lowdata_fmt req
                 = Inr (req\<lparr>unserialized_data := Some (PDict d'), lowstate := Some (PList [PDict d'])\<rparr>)
            \<and> map_of d' ''arg''
                = map_option (\<lambda>a. if is_list a then a else PList [a]) (map_of d ''arg'')
            \<and> (\<forall>k. k \<noteq> ''arg'' \<longrightarrow> map_of d' k = map_of d k)"
    by (intro exI[of _ "wrap_arg d"]) (simp add: map_of_wrap_arg)
next
  assume "map_of d ''arg'' = Some (PList xs)"
  then show "\<exists>d'. prep_chunk client token (PDict d) = Inr (PDict d')
            \<and> map_of d' ''arg'' = Some (PList xs)
            \<and> engine_calls (fst (exec_lowstate run True client token (Some (PList [PDict d])) s))
                = [PDict d']" by (rule prep_chunk_list_arg)
qed

text \<open>
  C6, at a form-encoded POST to \<^verbatim>\<open>/\<close> whose header is
  \<^verbatim>\<open>Content-Type: application/x-www-form-urlencoded; charset=UTF-8\<close> and whose body is
  \<^verbatim>\<open>fun=test.ping&arg=x\<close>. CherryPy picks the processor by the media type, so
  \<^verbatim>\<open>urlencoded_processor\<close> parses the form; \<^verbatim>\<open>lowdata_fmt\<close> compares the whole
  header with \<^verbatim>\<open>'application/x-www-form-urlencoded'\<close>, takes the other branch, and
  the lowstate is the parsed mapping itself: the scalar \<^verbatim>\<open>arg\<close> is not coerced and
  the mapping is not wrapped into a batch, so \<^verbatim>\<open>exec_lowstate\<close> answers 400. The same
  body under the bare header is coerced and wrapped.
\<close>

theorem form_body_with_charset_not_wrapped:
  "decode_request example_decoders
     \<lparr>req_method = ''POST'',
      headers = [(''Content-Type'', ''application/x-www-form-urlencoded; charset=UTF-8''),
                 (''Content-Length'', ''19'')],
      body = ''fun=test.ping&arg=x'', process_request_body = True,
      unserialized_data = None, lowstate = None\<rparr>
   = Inr \<lparr>req_method = ''POST'',
          headers = [(''Content-Type'', ''application/x-www-form-urlencoded; charset=UTF-8''),
                     (''Content-Length'', ''19'')],
          body = ''fun=test.ping&arg=x'', process_request_body = True,
          unserialized_data = Some (PDict [(''fun'', PStr ''test.ping''), (''arg'', PStr ''x'')]),
          lowstate = Some (PDict [(''fun'', PStr ''test.ping''), (''arg'', PStr ''x'')])\<rparr>
   \<and> fst (LowDataAdapter_POST example_engine
        \<lparr>req_method = ''POST'',
         headers = [(''Content-Type'', ''application/x-www-form-urlencoded; charset=UTF-8''),
                    (''Content-Length'', ''19'')],
         body = ''fun=test.ping&arg=x'', process_request_body = True,
         unserialized_data = Some (PDict [(''fun'', PStr ''test.ping''), (''arg'', PStr ''x'')]),
         lowstate = Some (PDict [(''fun'', PStr ''test.ping''), (''arg'', PStr ''x'')])\<rparr>
        example_world)
     = Inl (HTTPError 400 ''Lowstates must be a list'')
   \<and> decode_request example_decoders
     \<lparr>req_method = ''POST'',
      headers = [(''Content-Type'', ''application/x-www-form-urlencoded''),
                 (''Content-Length'', ''19'')],
      body = ''fun=test.ping&arg=x'', process_request_body = True,
      unserialized_data = None, lowstate = None\<rparr>
   = Inr \<lparr>req_method = ''POST'',
          headers = [(''Content-Type'', ''application/x-www-form-urlencoded''),
                     (''Content-Length'', ''19'')],
          body = ''fun=test.ping&arg=x'', process_request_body = True,
          unserialized_data
            = Some (PDict [(''fun'', PStr ''test.ping''), (''arg'', PList [PStr ''x''])]),
          lowstate
            = Some (PList [PDict [(''fun'', PStr ''test.ping''), (''arg'', PList [PStr ''x''])]])\<rparr>"
  by (simp add: decode_request_def hypermedia_in_def process_body_def media_type_def
        ct_in_map_def urlencoded_processor_def example_decoders_def lowdata_fmt_def
        normalize_arg_def ebind_def upper_def LowDataAdapter_POST_def run_lowstate_def
        exec_lowstate_def)

section \<open>Properties of the Content Negotiator\<close>

text \<open>
  C7. When the wrapped handler raises an eauth authentication error,
  \<^verbatim>\<open>hypermedia_handler\<close> raises an internal redirect to \<^verbatim>\<open>/login\<close> and produces no
  body. When it raises any other exception that is not a CherryPy one, the exception is
  logged with the request path, the response status is set to 500 and the value handed
  to the output transform is the envelope \<^verbatim>\<open>{status: 500, return: ...}\<close>, whose
  \<^verbatim>\<open>return\<close> is the fixed text \<^verbatim>\<open>An unexpected error occurred\<close> unless
  \<^verbatim>\<open>debug\<close> is set, and the formatted traceback only when it is.
\<close>

theorem handler_exceptions_normalized:
  "(inner (w\<lparr>processors := ct_out_map ser\<rparr>) = (Inl (EauthAuthenticationError m), w1)
      \<longrightarrow> hypermedia_handler ser format_exc debug path_info accept inner w
            = (Inl (InternalRedirect ''/login''), w1))
   \<and> (inner (w\<lparr>processors := ct_out_map ser\<rparr>) = (Inl (PyError cls m), w1)
      \<longrightarrow> run_inner ser format_exc debug path_info inner w
            = (Inr (PDict [(''status'', PInt 500),
                           (''return'', PStr (if debug then format_exc (PyError cls m)
                                              else ''An unexpected error occurred''))]),
               w1\<lparr>hlog := hlog w1 @ [(''Error while processing request for: '' @ path_info,
                                        Some (PyError cls m))],
                   status := 500\<rparr>)
          \<and> hypermedia_handler ser format_exc debug path_info accept inner w
            = negotiate ser accept
                (PDict [(''status'', PInt 500),
                        (''return'', PStr (if debug then format_exc (PyError cls m)
                                           else ''An unexpected error occurred''))])
                (w1\<lparr>hlog := hlog w1 @ [(''Error while processing request for: '' @ path_info,
                                         Some (PyError cls m))],
                    status := 500\<rparr>))"
  by (simp add: hypermedia_handler_def run_inner_def)

theorem handler_exceptions_normalized_witness:
  "hypermedia_handler example_ser example_format_exc False ''/'' (accept_exact [''application/json''])
     (raising_handler (EauthAuthenticationError ''expired'')) example_world
     = (Inl (InternalRedirect ''/login''), example_world\<lparr>processors := ct_out_map example_ser\<rparr>)
   \<and> fst (hypermedia_handler example_ser example_format_exc False ''/''
            (accept_exact [''application/json''])
            (raising_handler (PyError ''KeyError'' ''jid'')) example_world)
     = Inr ''json: An unexpected error occurred''
   \<and> fst (hypermedia_handler example_ser example_format_exc True ''/''
            (accept_exact [''application/json''])
            (raising_handler (PyError ''KeyError'' ''jid'')) example_world)
     = Inr ''json: Traceback (most recent call last)''
   \<and> hlog (snd (hypermedia_handler example_ser example_format_exc False ''/''
            (accept_exact [''application/json''])
            (raising_handler (PyError ''KeyError'' ''jid'')) example_world))
     = [(''Error while processing request for: /'', Some (PyError ''KeyError'' ''jid''))]
   \<and> status (snd (hypermedia_handler example_ser example_format_exc False ''/''
            (accept_exact [''application/json''])
            (raising_handler (PyError ''KeyError'' ''jid'')) example_world))
     = 500"
  using handler_exceptions_normalized
    [where inner = "raising_handler (EauthAuthenticationError ''expired'')"
       and w = example_world and ser = example_ser and m = "''expired''"
       and ?w1.0 = "example_world\<lparr>processors := ct_out_map example_ser\<rparr>"
       and format_exc = example_format_exc and debug = False and path_info = "''/''"
       and accept = "accept_exact [''application/json'']"]
    handler_exceptions_normalized
    [where inner = "raising_handler (PyError ''KeyError'' ''jid'')"
       and w = example_world and ser = example_ser and m = "''jid''" and cls = "''KeyError''"
       and ?w1.0 = "example_world\<lparr>processors := ct_out_map example_ser\<rparr>"
       and format_exc = example_format_exc and debug = False and path_info = "''/''"
       and accept = "accept_exact [''application/json'']"]
    handler_exceptions_normalized
    [where inner = "raising_handler (PyError ''KeyError'' ''jid'')"
       and w = example_world and ser = example_ser and m = "''jid''" and cls = "''KeyError''"
       and ?w1.0 = "example_world\<lparr>processors := ct_out_map example_ser\<rparr>"
       and format_exc = example_format_exc and debug = True and path_info = "''/''"
       and accept = "accept_exact [''application/json'']"]
  by (simp add: raising_handler_def negotiate_def accept_exact_def ct_out_map_def
        example_ser_def example_world_def example_format_exc_def show_return_def)

text \<open>
  C3, as the code has it. When \<^verbatim>\<open>accept\<close> finds none of the supported media types
  acceptable and raises 406: if the wrapped handler returned a value, or raised an
  exception that is neither a CherryPy exception nor an eauth authentication error,
  \<^verbatim>\<open>hypermedia_handler\<close> raises that 406, with the response headers as the handler
  left them (no \<^verbatim>\<open>Content-Type\<close> is set and no serializer is applied); it is CherryPy
  that renders the error. A CherryPy exception raised by the handler (an
  \<^verbatim>\<open>HTTPError\<close>, an \<^verbatim>\<open>InternalRedirect\<close>) is raised again as it is, and an eauth
  authentication error becomes an internal redirect to \<^verbatim>\<open>/login\<close>, whatever the
  \<^verbatim>\<open>Accept\<close> header says.
\<close>

theorem not_acceptable_unless_handler_raised_http:
  "(accept (map fst (ct_out_map ser)) = Inl (HTTPError 406 msg)
      \<and> inner (w\<lparr>processors := ct_out_map ser\<rparr>) = (Inr ret, w1)
    \<longrightarrow> hypermedia_handler ser format_exc debug path_info accept inner w
          = (Inl (HTTPError 406 msg), w1))
   \<and> (accept (map fst (ct_out_map ser)) = Inl (HTTPError 406 msg)
      \<and> inner (w\<lparr>processors := ct_out_map ser\<rparr>) = (Inl (PyError cls m), w1)
    \<longrightarrow> hypermedia_handler ser format_exc debug path_info accept inner w
          = (Inl (HTTPError 406 msg),
             w1\<lparr>hlog := hlog w1 @ [(''Error while processing request for: '' @ path_info,
                                      Some (PyError cls m))],
                 status := 500\<rparr>))
   \<and> (inner (w\<lparr>processors := ct_out_map ser\<rparr>) = (Inl (HTTPError c m), w1)
    \<longrightarrow> hypermedia_handler ser format_exc debug path_info accept inner w
          = (Inl (HTTPError c m), w1))
   \<and> (inner (w\<lparr>processors := ct_out_map ser\<rparr>) = (Inl (InternalRedirect p), w1)
    \<longrightarrow> hypermedia_handler ser format_exc debug path_info accept inner w
          = (Inl (InternalRedirect p), w1))
   \<and> (inner (w\<lparr>processors := ct_out_map ser\<rparr>) = (Inl (EauthAuthenticationError m), w1)
    \<longrightarrow> hypermedia_handler ser format_exc debug path_info accept inner w
          = (Inl (InternalRedirect ''/login''), w1))"
  by (simp add: hypermedia_handler_def run_inner_def negotiate_def)

theorem not_acceptable_unless_handler_raised_http_witness:
  "accept_exact [''text/html''] (map fst (ct_out_map example_ser))
     = Inl (HTTPError 406 ''But this resource only emits these media types'')
   \<and> hypermedia_handler example_ser example_format_exc False ''/'' (accept_exact [''text/html''])
       (returning_handler (PDict [(''return'', PStr ''Welcome'')])) example_world
     = (Inl (HTTPError 406 ''But this resource only emits these media types''),
        example_world\<lparr>processors := ct_out_map example_ser\<rparr>)
   \<and> fst (hypermedia_handler example_ser example_format_exc False ''/''
            (accept_exact [''text/html''])
            (raising_handler (PyError ''KeyError'' ''jid'')) example_world)
     = Inl (HTTPError 406 ''But this resource only emits these media types'')
   \<and> fst (hypermedia_handler example_ser example_format_exc False ''/''
            (accept_exact [''text/html''])
            (raising_handler (HTTPError 401 ''Could not authenticate'')) example_world)
     = Inl (HTTPError 401 ''Could not authenticate'')
   \<and> fst (hypermedia_handler example_ser example_format_exc False ''/''
            (accept_exact [''text/html''])
            (raising_handler (InternalRedirect ''/login'')) example_world)
     = Inl (InternalRedirect ''/login'')
   \<and> fst (hypermedia_handler example_ser example_format_exc False ''/''
            (accept_exact [''text/html''])
            (raising_handler (EauthAuthenticationError ''expired'')) example_world)
     = Inl (InternalRedirect ''/login'')"
  using not_acceptable_unless_handler_raised_http
    [where accept = "accept_exact [''text/html'']" and ser = example_ser
       and msg = "''But this resource only emits these media types''"
       and inner = "returning_handler (PDict [(''return'', PStr ''Welcome'')])"
       and w = example_world and ret = "PDict [(''return'', PStr ''Welcome'')]"
       and ?w1.0 = "example_world\<lparr>processors := ct_out_map example_ser\<rparr>"
       and format_exc = example_format_exc and debug = False and path_info = "''/''"]
    not_acceptable_unless_handler_raised_http
    [where accept = "accept_exact [''text/html'']" and ser = example_ser
       and msg = "''But this resource only emits these media types''"
       and inner = "raising_handler (PyError ''KeyError'' ''jid'')"
       and w = example_world and cls = "''KeyError''" and m = "''jid''"
       and ?w1.0 = "example_world\<lparr>processors := ct_out_map example_ser\<rparr>"
       and format_exc = example_format_exc and debug = False and path_info = "''/''"]
  by (simp add: raising_handler_def returning_handler_def hypermedia_handler_def run_inner_def
        negotiate_def accept_exact_def ct_out_map_def example_ser_def)

text \<open>
  C3 as stated fails: \<^verbatim>\<open>POST /\<close> with a JSON object as body and
  \<^verbatim>\<open>Accept: text/html\<close>. The handler raises \<^verbatim>\<open>HTTPError(400)\<close>, which
  \<^verbatim>\<open>hypermedia_handler\<close> raises again before it ever looks at the \<^verbatim>\<open>Accept\<close> header:
  the response is 400, not 406.
\<close>

theorem not_acceptable_counterexample:
  "accept_exact [''text/html''] (map fst (ct_out_map example_ser))
     = Inl (HTTPError 406 ''But this resource only emits these media types'')
   \<and> fst (hypermedia_handler example_ser example_format_exc False ''/''
            (accept_exact [''text/html''])
            (LowDataAdapter_POST example_engine
               \<lparr>req_method = ''POST'', headers = [(''Content-Type'', ''application/json''),
                                                   (''Accept'', ''text/html'')],
                body = ''{}'', process_request_body = True,
                unserialized_data = Some (PDict [(''fun'', PStr ''test.ping'')]),
                lowstate = Some (PDict [(''fun'', PStr ''test.ping'')])\<rparr>)
            example_world)
     = Inl (HTTPError 400 ''Lowstates must be a list'')"
  by (simp add: accept_exact_def ct_out_map_def example_ser_def hypermedia_handler_def
        run_inner_def LowDataAdapter_POST_def run_lowstate_def exec_lowstate_def)


section \<open>Properties of the session lock\<close>

lemma released_first_unlocked: "released_first False evs"
proof (induction evs)
  case Nil
  show ?case by simp
next
  case (Cons a evs)
  then show ?case by (cases a) simp_all
qed

lemma released_first_exec:
  "released_first True (fst (exec_lowstate run session client token ls s))"
proof (cases ls)
  case None
  then show ?thesis by (simp add: exec_lowstate_def)
next
  case (Some v)
  then show ?thesis
    by (cases v) (simp_all add: exec_lowstate_def released_first_unlocked split: prod.splits)
qed

lemma trace_run_lowstate:
  "trace (snd (run_lowstate run session client token ls w))
     = trace w @ fst (exec_lowstate run session client token ls (eng w))"
  by (simp add: run_lowstate_def split: prod.splits)

lemma trace_LowDataAdapter_POST:
  "trace (snd (LowDataAdapter_POST run req w))
     = trace w @ fst (exec_lowstate run True PNone (session_get w ''token'') (lowstate req) (eng w))"
  by (simp add: LowDataAdapter_POST_def run_lowstate_def split: prod.splits sum.splits option.splits)

lemma trace_Minions_POST:
  "trace (snd (Minions_POST run str_of req w))
     = trace w @ fst (exec_lowstate run True (PStr ''local_async'') (session_get w ''token'')
                        (lowstate req) (eng w))"
  by (simp add: Minions_POST_def run_lowstate_def Let_def
           split: prod.splits sum.splits option.splits)

lemma trace_Jobs_GET:
  "trace (snd (Jobs_GET run jid w))
     = trace w @ fst (exec_lowstate run True PNone (session_get w ''token'')
                        (Some (PList (jobs_lowstate jid))) (eng w))"
  by (simp add: Jobs_GET_def run_lowstate_def
           split: prod.splits sum.splits option.splits list.splits)

lemma released_first_Events_GET:
  "trace w = [] \<Longrightarrow>
   released_first True (trace (snd (Events_GET get_tok cache dumps format0 token stream w)))"
  by (simp add: Events_GET_def Let_def listen_def released_first_unlocked split: prod.splits)

lemma released_first_WebsocketEndpoint_GET:
  "trace w = [] \<Longrightarrow>
   released_first True
     (trace (snd (WebsocketEndpoint_GET get_tok cache dumps process str_of fe token stream w)))"
  by (simp add: WebsocketEndpoint_GET_def Let_def event_stream_def released_first_unlocked
           split: prod.splits)

text \<open>
  C2. From the start of a request (nothing done yet, the session lock held), in each of
  \<^verbatim>\<open>POST /\<close>, \<^verbatim>\<open>POST /minions\<close>, \<^verbatim>\<open>GET /jobs\<close>, \<^verbatim>\<open>GET /events\<close> and
  \<^verbatim>\<open>GET /ws\<close>, whatever the request, the engine and the event stream are: no call of
  the engine and no subscription to the event bus happens while the lock is held;
  \<^verbatim>\<open>cherrypy.session.release_lock()\<close> comes before the first of them. (How requests
  of one session then interleave is outside this sequential model.)
\<close>

theorem lock_released_before_engine_or_stream:
  assumes "trace w = []"
  shows "released_first True (trace (snd (LowDataAdapter_POST run req w)))
       \<and> released_first True (trace (snd (Minions_POST run str_of req w)))
       \<and> released_first True (trace (snd (Jobs_GET run jid w)))
       \<and> released_first True
           (trace (snd (Events_GET get_tok cache dumps format0 token stream w)))
       \<and> released_first True
           (trace (snd (WebsocketEndpoint_GET get_tok cache dumps process str_of fe token
                          stream w)))"
proof -
  show ?thesis
    using assms
    by (simp add: trace_LowDataAdapter_POST trace_Minions_POST trace_Jobs_GET
          released_first_exec released_first_Events_GET released_first_WebsocketEndpoint_GET)
qed

theorem lock_released_before_engine_or_stream_witness:
  "trace example_world = []
   \<and> trace (snd (LowDataAdapter_POST example_engine
        \<lparr>req_method = ''POST'', headers = [], body = [], process_request_body = True,
         unserialized_data = None,
         lowstate = Some (PList [PDict [(''fun'', PStr ''test.ping'')]])\<rparr> example_world))
     = [LockReleased,
        EngineRun (PDict [(''fun'', PStr ''test.ping''), (''token'', PStr ''tok'')]),
        Yield (PInt 1), Yield (PInt 2)]
   \<and> released_first True
        [LockReleased,
         EngineRun (PDict [(''fun'', PStr ''test.ping''), (''token'', PStr ''tok'')]),
         Yield (PInt 1), Yield (PInt 2)]
   \<and> trace (snd (Events_GET example_get_tok [] example_dumps example_format0 None
        [PDict [(''tag'', PStr ''salt/good''), (''data'', PStr ''ok'')]] example_world))
     = [TokenChecked (PStr ''tok''), LockReleased, Subscribed,
        Yield (PStr (''retry: 400'' @ [CHR 0x0A])),
        Yield (PStr (''tag: salt/good'' @ [CHR 0x0A])),
        Yield (PStr (''data: {}'' @ [CHR 0x0A, CHR 0x0A]))]
   \<and> \<not> released_first True [EngineRun (PDict []), LockReleased]"
  using lock_released_before_engine_or_stream
    [where w = example_world and run = example_engine
       and req = "\<lparr>req_method = ''POST'', headers = [], body = [], process_request_body = True,
         unserialized_data = None,
         lowstate = Some (PList [PDict [(''fun'', PStr ''test.ping'')]])\<rparr>"]
  by (simp add: LowDataAdapter_POST_def run_lowstate_def exec_lowstate_def prep_chunk_def
        inject_def normalize_arg_def ebind_def example_engine_def example_world_def
        session_get_def Events_GET_def stream_token_def example_get_tok_def listen_def
        example_dumps_def example_format0_def Let_def)

section \<open>Properties of the asynchronous submission\<close>

lemma prep_chunk_client:
  assumes "prep_chunk client token chunk = Inr c" and "py_truthy client"
  shows "py_getitem c ''client'' = Inr client"
proof -
  from assms obtain c1 where c1: "inject ''token'' token chunk = Inr c1"
    and c2: "ebind (inject ''client'' client c1) normalize_arg = Inr c"
    by (auto simp: prep_chunk_def ebind_def split: sum.splits)
  from c2 assms(2) obtain d1 where d1: "c1 = PDict d1"
    by (cases c1) (auto simp: inject_def ebind_def)
  with c2 assms(2) have "c = PDict (wrap_arg (AList.update ''client'' client d1))"
    by (simp add: inject_dict ebind_def normalize_arg_dict wrap_arg_def)
  then show ?thesis by (simp add: map_of_wrap_arg update_conv')
qed

lemma engine_calls_client:
  "exec_chunks run client token chunks s = (evs, r, s') \<Longrightarrow> py_truthy client \<Longrightarrow>
   \<forall>c \<in> set (engine_calls evs). py_getitem c ''client'' = Inr client"
proof (induction chunks arbitrary: s evs r s')
  case Nil
  then show ?case by simp
next
  case (Cons chunk rest)
  show ?case
  proof (cases "prep_chunk client token chunk")
    case (Inl e)
    with Cons.prems show ?thesis by simp
  next
    case (Inr c)
    note c = prep_chunk_client[OF Inr Cons.prems(2)]
    obtain ret s1 where ret: "run s c = (ret, s1)" by (cases "run s c")
    obtain evs1 r1 s2 where rest: "exec_chunks run client token rest s1 = (evs1, r1, s2)"
      by (cases "exec_chunks run client token rest s1")
    note ih = Cons.IH[OF rest Cons.prems(2)]
    from Cons.prems(1) Inr ret rest
    have "set (engine_calls evs) \<subseteq> insert c (set (engine_calls evs1))"
      by (auto simp: engine_calls_append engine_calls_map_Yield
               split: engine_ret.splits option.splits)
    with c ih show ?thesis by auto
  qed
qed

lemma job_links_ok:
  "\<forall>j \<in> set jobs. py_truthy j \<longrightarrow> (\<exists>jid. py_getitem j ''jid'' = Inr jid) \<Longrightarrow>
   \<exists>links. job_links str_of jobs = Inr links
     \<and> list_all2 (\<lambda>j l. \<exists>jid. py_getitem j ''jid'' = Inr jid
                       \<and> l = PDict [(''href'', PStr (''/jobs/'' @ py_format str_of jid))])
          (filter py_truthy jobs) links"
proof (induction jobs)
  case Nil
  then show ?case by simp
next
  case (Cons j jobs)
  then obtain links where l: "job_links str_of jobs = Inr links"
     "list_all2 (\<lambda>j l. \<exists>jid. py_getitem j ''jid'' = Inr jid
                       \<and> l = PDict [(''href'', PStr (''/jobs/'' @ py_format str_of jid))])
          (filter py_truthy jobs) links" by auto
  show ?case
  proof (cases "py_truthy j")
    case True
    with Cons.prems obtain jid where "py_getitem j ''jid'' = Inr jid" by auto
    with True l show ?thesis by (simp add: ebind_def)
  next
    case False
    with l show ?thesis by simp
  qed
qed

text \<open>
  C8. \<^verbatim>\<open>POST /minions\<close> on a batch that \<^verbatim>\<open>exec_lowstate\<close> runs to its end with the
  client fixed to \<^verbatim>\<open>local_async\<close> and the session's token, where every non-empty
  result has a \<^verbatim>\<open>jid\<close>: every call of the engine carries
  \<^verbatim>\<open>client = 'local_async'\<close>, the response status is 202, \<^verbatim>\<open>return\<close> is the list
  of the engine's results, and \<^verbatim>\<open>_links.jobs\<close> has, in order, one
  \<^verbatim>\<open>{'href': '/jobs/<jid>'}\<close> for each non-empty result.
\<close>

theorem minions_post_accepted:
  assumes "lowstate req = Some (PList chunks)"
      and "exec_lowstate run True (PStr ''local_async'') (session_get w ''token'')
             (Some (PList chunks)) (eng w) = (evs, None, s')"
      and "\<forall>j \<in> set (yields evs). py_truthy j \<longrightarrow> (\<exists>jid. py_getitem j ''jid'' = Inr jid)"
  shows "\<exists>links. Minions_POST run str_of req w
           = (Inr (PDict [(''return'', PList (yields evs)),
                          (''_links'', PDict [(''jobs'', PList links)])]),
              w\<lparr>eng := s', trace := trace w @ evs, status := 202\<rparr>)
         \<and> list_all2 (\<lambda>j l. \<exists>jid. py_getitem j ''jid'' = Inr jid
                           \<and> l = PDict [(''href'', PStr (''/jobs/'' @ py_format str_of jid))])
              (filter py_truthy (yields evs)) links
         \<and> (\<forall>c \<in> set (engine_calls evs). py_getitem c ''client'' = Inr (PStr ''local_async''))"
proof -
  from job_links_ok[OF assms(3), of str_of] obtain links where
    l: "job_links str_of (yields evs) = Inr links"
       "list_all2 (\<lambda>j l. \<exists>jid. py_getitem j ''jid'' = Inr jid
                           \<and> l = PDict [(''href'', PStr (''/jobs/'' @ py_format str_of jid))])
              (filter py_truthy (yields evs)) links" by blast
  have m: "Minions_POST run str_of req w
           = (Inr (PDict [(''return'', PList (yields evs)),
                          (''_links'', PDict [(''jobs'', PList links)])]),
              w\<lparr>eng := s', trace := trace w @ evs, status := 202\<rparr>)"
    using assms(1,2) l(1) by (simp add: Minions_POST_def run_lowstate_def)
  from assms(2) obtain evs1 where
    e: "exec_chunks run (PStr ''local_async'') (session_get w ''token'') chunks (eng w)
          = (evs1, None, s')" and evs: "evs = LockReleased # evs1"
    by (auto simp: exec_lowstate_def split: prod.splits)
  from engine_calls_client[OF e] evs
  have "\<forall>c \<in> set (engine_calls evs). py_getitem c ''client'' = Inr (PStr ''local_async'')"
    by simp
  with m l(2) show ?thesis by blast
qed

theorem minions_post_accepted_witness:
  "exec_lowstate example_async_engine True (PStr ''local_async'') (session_get example_world ''token'')
     (Some (PList [PDict [(''tgt'', PStr ''*''), (''fun'', PStr ''status.diskusage'')]]))
     (eng example_world)
   = ([LockReleased,
       EngineRun (PDict [(''tgt'', PStr ''*''), (''fun'', PStr ''status.diskusage''),
                         (''token'', PStr ''tok''), (''client'', PStr ''local_async'')]),
       Yield (PDict [(''jid'', PStr ''20130603122505459265''),
                     (''minions'', PList [PStr ''ms-0'', PStr ''ms-1''])])], None, 1)
   \<and> Minions_POST example_async_engine example_str_of
       \<lparr>req_method = ''POST'', headers = [], body = [], process_request_body = True,
        unserialized_data = None,
        lowstate = Some (PList [PDict [(''tgt'', PStr ''*''), (''fun'', PStr ''status.diskusage'')]])\<rparr>
       example_world
   = (Inr (PDict [(''return'', PList [PDict [(''jid'', PStr ''20130603122505459265''),
                                            (''minions'', PList [PStr ''ms-0'', PStr ''ms-1''])]]),
                  (''_links'', PDict [(''jobs'',
                     PList [PDict [(''href'', PStr ''/jobs/20130603122505459265'')]])])]),
      example_world\<lparr>eng := 1,
        trace := [LockReleased,
                  EngineRun (PDict [(''tgt'', PStr ''*''), (''fun'', PStr ''status.diskusage''),
                                    (''token'', PStr ''tok''), (''client'', PStr ''local_async'')]),
                  Yield (PDict [(''jid'', PStr ''20130603122505459265''),
                                (''minions'', PList [PStr ''ms-0'', PStr ''ms-1''])])],
        status := 202\<rparr>)"
proof -
  have h: "exec_lowstate example_async_engine True (PStr ''local_async'') (session_get example_world ''token'')
     (Some (PList [PDict [(''tgt'', PStr ''*''), (''fun'', PStr ''status.diskusage'')]]))
     (eng example_world)
   = ([LockReleased,
       EngineRun (PDict [(''tgt'', PStr ''*''), (''fun'', PStr ''status.diskusage''),
                         (''token'', PStr ''tok''), (''client'', PStr ''local_async'')]),
       Yield (PDict [(''jid'', PStr ''20130603122505459265''),
                     (''minions'', PList [PStr ''ms-0'', PStr ''ms-1''])])], None, 1)"
    by (simp add: exec_lowstate_def prep_chunk_def inject_def normalize_arg_def ebind_def
          example_async_engine_def example_world_def session_get_def)
  show ?thesis
    using h minions_post_accepted
      [where req = "\<lparr>req_method = ''POST'', headers = [], body = [], process_request_body = True,
          unserialized_data = None,
          lowstate = Some (PList [PDict [(''tgt'', PStr ''*''),
                                         (''fun'', PStr ''status.diskusage'')]])\<rparr>"
         and str_of = example_str_of, OF _ h]
    by (simp add: Minions_POST_def run_lowstate_def py_format_def ebind_def example_world_def)
qed

section \<open>Properties of the event streams\<close>

lemma listen_loop_stops:
  "ebind (py_get data ''tag'' (PStr [])) format0 = Inr tag \<Longrightarrow> dumps data = Inl e \<Longrightarrow>
   listen_loop dumps format0 (data # rest)
     = ([Yield (PStr (''tag: '' @ tag @ [CHR 0x0A]))], Some e)"
  by simp

lemma event_stream_loop_skips:
  "py_truthy data \<Longrightarrow> dumps data = Inl e \<Longrightarrow> is_UnicodeDecodeError e \<Longrightarrow>
   event_stream_loop dumps process str_of False (data # rest)
     = (Logged (''Error: Salt event has non UTF-8 data:'' @ [CHR 0x0A] @ py_format str_of data)
          # Slept # fst (event_stream_loop dumps process str_of False rest),
        snd (event_stream_loop dumps process str_of False rest))"
  by (simp add: ebind_def split: prod.splits)

text \<open>
  C9, at a stream of two events of which the first cannot be serialized
  (\<^verbatim>\<open>json.dumps\<close> raises \<^verbatim>\<open>UnicodeDecodeError\<close>). The SSE generator
  \<^verbatim>\<open>Events.GET.listen\<close> has no handler for it: it has sent the \<^verbatim>\<open>tag:\<close> line of
  the bad event, then ends with the exception, and the second event is never
  delivered. The WebSocket loop \<^verbatim>\<open>event_stream\<close> on the same stream logs the error,
  skips the event and sends the second one.
\<close>

theorem sse_stream_ends_on_undecodable_event:
  "listen example_dumps example_format0
     [PDict [(''tag'', PStr ''salt/bad''), (''data'', PStr [CHR 0xFF])],
      PDict [(''tag'', PStr ''salt/good''), (''data'', PStr ''ok'')]]
   = ([Subscribed,
       Yield (PStr (''retry: 400'' @ [CHR 0x0A])),
       Yield (PStr (''tag: salt/bad'' @ [CHR 0x0A]))],
      Some (PyError ''UnicodeDecodeError'' ''invalid start byte''))
   \<and> event_stream example_dumps process example_str_of False
     [PDict [(''tag'', PStr ''salt/bad''), (''data'', PStr [CHR 0xFF])],
      PDict [(''tag'', PStr ''salt/good''), (''data'', PStr ''ok'')]]
   = ([Subscribed,
       Logged (''Error: Salt event has non UTF-8 data:'' @ [CHR 0x0A] @ ''?''),
       Slept,
       Sent (''data: {}'' @ [CHR 0x0A, CHR 0x0A]),
       Slept],
      None)"
  by (simp add: listen_def event_stream_def example_dumps_def example_format0_def
        example_str_of_def py_format_def ebind_def)

section \<open>Properties of Login\<close>







end
